theory Spec2Isabelle
  imports Complex_Main "HOL-Library.Code_Target_Numeral"
begin

section \<open>Python values and exceptions used by \<^verbatim>\<open>app.py\<close>\<close>

text \<open>
  The exceptions that can travel through \<^verbatim>\<open>_parse_amount_to_cents\<close>.
  \<^verbatim>\<open>decimal.InvalidOperation\<close> derives from \<^verbatim>\<open>ArithmeticError\<close>, so it is
  neither a \<^verbatim>\<open>ValueError\<close> nor a \<^verbatim>\<open>TypeError\<close>.
\<close>

datatype py_exception = ValueError string | InvalidOperation | TypeError | OverflowError

text \<open>
  Truthiness of an optional string (\<^verbatim>\<open>None\<close> and \<^verbatim>\<open>""\<close> are falsy) and
  Python's \<^verbatim>\<open>a or b\<close> on such values.
\<close>

fun truthy :: "string option \<Rightarrow> bool" where
  "truthy None = False"
| "truthy (Some s) = (s \<noteq> [])"

definition py_or :: "string option \<Rightarrow> string option \<Rightarrow> string option" where
  "py_or a b = (if truthy a then a else b)"

section \<open>The \<^verbatim>\<open>decimal\<close> module under the default context\<close>

text \<open>
  A \<^verbatim>\<open>Decimal\<close> is finite (sign, coefficient, exponent; the sign is \<open>True\<close> for
  negative numbers and the value is \<open>\<plusminus> coefficient * 10 ^ exponent\<close>), an infinity,
  a quiet NaN or a signaling NaN. The diagnostic payload of a NaN plays no role in
  \<^verbatim>\<open>app.py\<close> and is dropped. The context is the default one, which the program never
  changes: precision 28, rounding \<^verbatim>\<open>ROUND_HALF_EVEN\<close>, \<^verbatim>\<open>InvalidOperation\<close> trapped.
  Strings are sequences of ASCII characters; Unicode digits and Unicode white space
  are outside the model. Exponents are unbounded integers.
\<close>

datatype decimal = Finite bool nat int | Infinity bool | NaN bool | SNaN bool

definition prec :: nat where
  "prec = 28"

subsection \<open>\<^verbatim>\<open>Decimal(str)\<close>\<close>

definition is_space :: "char \<Rightarrow> bool" where
  "is_space c \<longleftrightarrow> c \<in> set [CHR 0x09, CHR 0x0A, CHR 0x0B, CHR 0x0C, CHR 0x0D,
                              CHR 0x1C, CHR 0x1D, CHR 0x1E, CHR 0x1F, CHR 0x20]"

definition strip :: "string \<Rightarrow> string" where
  "strip s = rev (dropWhile is_space (rev (dropWhile is_space s)))"

definition is_digit :: "char \<Rightarrow> bool" where
  "is_digit c \<longleftrightarrow> c \<in> set ''0123456789''"

definition digit_value :: "char \<Rightarrow> nat" where
  "digit_value c = of_char c - 48"

definition int_of_digits :: "string \<Rightarrow> nat" where
  "int_of_digits ds = foldl (\<lambda>a c. 10 * a + digit_value c) 0 ds"

definition lower :: "char \<Rightarrow> char" where
  "lower c = (if 65 \<le> (of_char c :: nat) \<and> (of_char c :: nat) \<le> 90
              then char_of (of_char c + (32 :: nat)) else c)"

text \<open>The optional sign in front of a numeric string.\<close>

fun parse_sign :: "string \<Rightarrow> bool \<times> string" where
  "parse_sign [] = (False, [])"
| "parse_sign (c # cs) =
     (if c = CHR ''-'' then (True, cs)
      else if c = CHR ''+'' then (False, cs)
      else (False, c # cs))"

text \<open>
  The exponent part \<^verbatim>\<open>(E[-+]?\d+)?\Z\<close>: nothing, or an \<^verbatim>\<open>e\<close>, an optional sign and
  at least one digit up to the end of the string.
\<close>

fun parse_exponent :: "string \<Rightarrow> int option" where
  "parse_exponent [] = Some 0"
| "parse_exponent (c # cs) =
     (if lower c = CHR ''e'' then
        (case parse_sign cs of
           (neg, ds) \<Rightarrow>
             if ds \<noteq> [] \<and> list_all is_digit ds
             then Some (if neg then - int (int_of_digits ds) else int (int_of_digits ds))
             else None)
      else None)"

text \<open>
  A finite number: digits with an optional fractional part, at least one digit in
  all (the look-ahead \<^verbatim>\<open>(?=\d|\.\d)\<close>), and an optional exponent. The coefficient is
  \<^verbatim>\<open>int(intpart + fracpart)\<close> and the exponent \<^verbatim>\<open>exp - len(fracpart)\<close>.
\<close>

definition parse_number :: "bool \<Rightarrow> string \<Rightarrow> decimal option" where
  "parse_number neg s =
     (let intpart = takeWhile is_digit s;
          rest = dropWhile is_digit s;
          (fracpart, rest') =
             (case rest of
                [] \<Rightarrow> ([], rest)
              | c # cs \<Rightarrow> if c = CHR ''.'' then (takeWhile is_digit cs, dropWhile is_digit cs)
                          else ([], rest))
      in if intpart = [] \<and> fracpart = [] then None
         else (case parse_exponent rest' of
                 None \<Rightarrow> None
               | Some ex \<Rightarrow>
                   Some (Finite neg (int_of_digits (intpart @ fracpart))
                                (ex - int (length fracpart)))))"

text \<open>
  The special values, matched without regard to case: \<^verbatim>\<open>Inf\<close>, \<^verbatim>\<open>Infinity\<close>, and
  \<^verbatim>\<open>NaN\<close> or \<^verbatim>\<open>sNaN\<close> followed by diagnostic digits.
\<close>

definition parse_special :: "bool \<Rightarrow> string \<Rightarrow> decimal option" where
  "parse_special neg s =
     (let l = map lower s in
      if l = ''inf'' \<or> l = ''infinity'' then Some (Infinity neg)
      else if take 3 l = ''nan'' \<and> list_all is_digit (drop 3 l) then Some (NaN neg)
      else if take 4 l = ''snan'' \<and> list_all is_digit (drop 4 l) then Some (SNaN neg)
      else None)"

text \<open>
  \<^verbatim>\<open>_parser(value.strip().replace("_", ""))\<close>: white space is stripped at both ends,
  then every underscore is removed, then the whole string must match.
\<close>

definition decimal_of_string :: "string \<Rightarrow> decimal option" where
  "decimal_of_string s =
     (case parse_sign (filter (\<lambda>c. c \<noteq> CHR ''_'') (strip s)) of
        (neg, body) \<Rightarrow>
          (case parse_number neg body of
             Some d \<Rightarrow> Some d
           | None \<Rightarrow> parse_special neg body))"

text \<open>
  The constructor on the value that \<^verbatim>\<open>data.get("amount")\<close> yields: \<^verbatim>\<open>None\<close> raises
  \<^verbatim>\<open>TypeError\<close>, a string that is no numeric string raises \<^verbatim>\<open>InvalidOperation\<close>.
\<close>

fun Decimal :: "string option \<Rightarrow> py_exception + decimal" where
  "Decimal None = Inl TypeError"
| "Decimal (Some s) =
     (case decimal_of_string s of None \<Rightarrow> Inl InvalidOperation | Some d \<Rightarrow> Inr d)"

subsection \<open>Rounding and the arithmetic of the context\<close>

text \<open>
  \<^verbatim>\<open>ROUND_HALF_EVEN\<close> on a coefficient: \<open>c / p\<close> to the nearest integer, a tie
  going to the even neighbour.
\<close>

definition round_half_even_div :: "nat \<Rightarrow> nat \<Rightarrow> nat" where
  "round_half_even_div c p =
     (let q = c div p; r = c mod p
      in if 2 * r < p then q
         else if p < 2 * r then q + 1
         else if even q then q else q + 1)"

text \<open>
  \<^verbatim>\<open>_rescale(exp, rounding)\<close>: the coefficient of \<open>c * 10 ^ e\<close> at the exponent
  \<open>ex\<close>, padded with zeros or rounded.
\<close>

definition rescale :: "nat \<Rightarrow> int \<Rightarrow> int \<Rightarrow> nat" where
  "rescale c e ex =
     (if ex \<le> e then c * 10 ^ nat (e - ex)
      else round_half_even_div c (10 ^ nat (ex - e)))"

text \<open>\<^verbatim>\<open>len(str(n))\<close>, the number of decimal digits of a coefficient.\<close>

fun ndigits :: "nat \<Rightarrow> nat" where
  "ndigits n = (if n < 10 then 1 else Suc (ndigits (n div 10)))"

declare ndigits.simps [simp del]

text \<open>
  \<^verbatim>\<open>d.quantize(Decimal("0.01"))\<close>, with \<open>ex\<close> the exponent \<open>-2\<close> of the second
  operand. A quiet NaN passes through, a signaling NaN and an infinity signal
  \<^verbatim>\<open>InvalidOperation\<close>, and so does a result whose coefficient has more digits than
  the precision. (The library tests the length twice, before and after rounding;
  the test after rounding covers both, and at this exponent the bounds on the
  exponent of the context are never reached first.)
\<close>

fun quantize :: "decimal \<Rightarrow> int \<Rightarrow> py_exception + decimal" where
  "quantize (Finite s c e) ex =
     (let c' = rescale c e ex
      in if prec < ndigits c' then Inl InvalidOperation else Inr (Finite s c' ex))"
| "quantize (Infinity s) ex = Inl InvalidOperation"
| "quantize (NaN s) ex = Inr (NaN s)"
| "quantize (SNaN s) ex = Inl InvalidOperation"

text \<open>
  \<^verbatim>\<open>amount <= 0\<close>: an ordering comparison that involves a NaN signals
  \<^verbatim>\<open>InvalidOperation\<close>, which the default context traps.
\<close>

fun le_zero :: "decimal \<Rightarrow> py_exception + bool" where
  "le_zero (Finite s c e) = Inr (s \<or> c = 0)"
| "le_zero (Infinity s) = Inr s"
| "le_zero (NaN s) = Inl InvalidOperation"
| "le_zero (SNaN s) = Inl InvalidOperation"

text \<open>
  \<^verbatim>\<open>_fix(context)\<close>, which ends every arithmetic operation: a coefficient longer
  than the precision is rounded to it. (Exponents stay far from the bounds of the
  context here.)
\<close>

fun fix_prec :: "decimal \<Rightarrow> decimal" where
  "fix_prec (Finite s c e) =
     (if ndigits c \<le> prec then Finite s c e
      else let k = ndigits c - prec;
               c' = round_half_even_div c (10 ^ k)
           in if prec < ndigits c' then Finite s (c' div 10) (e + int k + 1)
              else Finite s c' (e + int k))"
| "fix_prec d = d"

text \<open>\<^verbatim>\<open>amount * 100\<close>.\<close>

fun times_100 :: "decimal \<Rightarrow> py_exception + decimal" where
  "times_100 (Finite s c e) = Inr (fix_prec (Finite s (c * 100) e))"
| "times_100 (Infinity s) = Inr (Infinity s)"
| "times_100 (NaN s) = Inr (NaN s)"
| "times_100 (SNaN s) = Inl InvalidOperation"

text \<open>\<^verbatim>\<open>int(d)\<close>, which truncates towards zero.\<close>

fun int_of_decimal :: "decimal \<Rightarrow> py_exception + int" where
  "int_of_decimal (Finite s c e) =
     Inr ((if s then - 1 else 1) *
          (if 0 \<le> e then int c * 10 ^ nat e else int (c div 10 ^ nat (- e))))"
| "int_of_decimal (Infinity s) = Inl OverflowError"
| "int_of_decimal (NaN s) = Inl (ValueError ''cannot convert NaN to integer'')"
| "int_of_decimal (SNaN s) = Inl (ValueError ''cannot convert NaN to integer'')"

text \<open>
  \<^verbatim>\<open>Decimal(n) / Decimal("100")\<close> for an integer \<open>n\<close>: the exact quotient, with its
  exponent as close to the ideal exponent 0 as the digits allow, rounded to the
  precision of the context.
\<close>

definition decimal_of_int_div_100 :: "int \<Rightarrow> decimal" where
  "decimal_of_int_div_100 n =
     (let s = n < 0; c = nat \<bar>n\<bar>
      in fix_prec (if c mod 100 = 0 then Finite s (c div 100) 0
              else if c mod 10 = 0 then Finite s (c div 10) (- 1)
              else Finite s c (- 2)))"

text \<open>\<^verbatim>\<open>str(n)\<close> for a natural number.\<close>

definition digit_char :: "nat \<Rightarrow> char" where
  "digit_char n = char_of (48 + n)"

fun str_nat :: "nat \<Rightarrow> string" where
  "str_nat n = (if n < 10 then [digit_char n] else str_nat (n div 10) @ [digit_char (n mod 10)])"

declare str_nat.simps [simp del]

text \<open>
  \<^verbatim>\<open>f"{d:.2f}"\<close>: the number is rescaled to two fractional digits with the rounding
  of the context, then written as sign, integer part, point and two digits.
\<close>

fun format_2f :: "decimal \<Rightarrow> string" where
  "format_2f (Finite s c e) =
     (let m = rescale c e (- 2)
      in (if s then ''-'' else '''') @ str_nat (m div 100) @ ''.'' @
         [digit_char (m div 10 mod 10), digit_char (m mod 10)])"
| "format_2f (Infinity s) = (if s then ''-'' else '''') @ ''Infinity''"
| "format_2f (NaN s) = (if s then ''-'' else '''') @ ''NaN''"
| "format_2f (SNaN s) = (if s then ''-'' else '''') @ ''sNaN''"

section \<open>The amount codec of \<^verbatim>\<open>app.py\<close>\<close>

text \<open>
  \<^verbatim>\<open>
  def _format_amount_from_cents(amount_cents: int) -> str:
      amount = Decimal(amount_cents) / Decimal("100")
      return f"{amount:.2f}"
  \<close>
\<close>

definition format_amount_from_cents :: "int \<Rightarrow> string" where
  "format_amount_from_cents amount_cents =
     (let amount = decimal_of_int_div_100 amount_cents in format_2f amount)"

text \<open>
  \<^verbatim>\<open>
  def _parse_amount_to_cents(amount_raw: str) -> int:
      try:
          amount = Decimal(amount_raw).quantize(Decimal("0.01"))
      except (InvalidOperation, TypeError):
          raise ValueError("Invalid amount.")
      if amount <= 0:
          raise ValueError("Amount must be greater than zero.")
      return int(amount * 100)
  \<close>
  The argument is what \<^verbatim>\<open>data.get("amount")\<close> gives: a string, or \<^verbatim>\<open>None\<close> when
  the field is absent. \<open>Inl\<close> is the exception that leaves the function. Only the
  first statement is inside the \<^verbatim>\<open>try\<close>.
\<close>

definition parse_amount_to_cents :: "string option \<Rightarrow> py_exception + int" where
  "parse_amount_to_cents amount_raw =
     (case (case Decimal amount_raw of Inl e \<Rightarrow> Inl e | Inr d \<Rightarrow> quantize d (- 2)) of
        Inl InvalidOperation \<Rightarrow> Inl (ValueError ''Invalid amount.'')
      | Inl TypeError \<Rightarrow> Inl (ValueError ''Invalid amount.'')
      | Inl e \<Rightarrow> Inl e
      | Inr amount \<Rightarrow>
          (case le_zero amount of
             Inl e \<Rightarrow> Inl e
           | Inr True \<Rightarrow> Inl (ValueError ''Amount must be greater than zero.'')
           | Inr False \<Rightarrow>
               (case times_100 amount of
                  Inl e \<Rightarrow> Inl e
                | Inr product \<Rightarrow> int_of_decimal product)))"

section \<open>The payment processor and the JSON replies\<close>

text \<open>
  What the handlers read from a \<^verbatim>\<open>stripe.error.CardError\<close>: its own \<^verbatim>\<open>code\<close>, the
  code of the nested error object (\<^verbatim>\<open>getattr(error.error, "code", None)\<close>) and the
  message meant for the user. Each may be \<^verbatim>\<open>None\<close>.
\<close>

record card_error =
  code :: "string option"
  error_code :: "string option"
  user_message :: "string option"

text \<open>
  An exception raised by the processor client: a card error, or any other
  \<^verbatim>\<open>Exception\<close>, which carries some detail of its own.
\<close>

datatype stripe_exception = CardError card_error | OtherException string

record payment_intent =
  intent_id :: string
  client_secret :: string
  status :: string
  amount :: int

text \<open>
  The two operations of the client that \<^verbatim>\<open>app.py\<close> calls.
  \<open>PaymentIntent_create amount currency payment_method receipt_email confirm\<close> and
  \<open>PaymentIntent_confirm payment_intent_id\<close>. The processor itself is a parameter
  of the handlers: any function from a call to an intent or an exception.
\<close>

datatype stripe_call =
    PaymentIntent_create int string "string option" "string option" bool
  | PaymentIntent_confirm "string option"

type_synonym stripe = "stripe_call \<Rightarrow> stripe_exception + payment_intent"

datatype json = JNull | JString string

fun json_of :: "string option \<Rightarrow> json" where
  "json_of None = JNull"
| "json_of (Some s) = JString s"

text \<open>
  What a view function produces: a JSON object with a status code (200 when the
  source gives none), or an exception that leaves the view function uncaught.
\<close>

datatype reply = Response nat "(string \<times> json) list" | Unhandled py_exception

text \<open>
  \<^verbatim>\<open>
  def _status_from_card_error(error: stripe.error.CardError) -> str:
      code = getattr(error, "code", None) or getattr(error.error, "code", None)
      if code == "incorrect_cvc":
          return "live"
      if code == "insufficient_funds":
          return "live"
      return "false"
  \<close>
\<close>

definition status_from_card_error :: "card_error \<Rightarrow> string" where
  "status_from_card_error error =
     (let code = py_or (code error) (error_code error)
      in if code = Some ''incorrect_cvc'' then ''live''
         else if code = Some ''insufficient_funds'' then ''live''
         else ''false'')"

section \<open>The two handlers\<close>

text \<open>
  A handler takes the configured secret key (\<^verbatim>\<open>stripe.api_key\<close>, module state set
  once at start), the processor, and \<^verbatim>\<open>data\<close>, the JSON object of the request with
  string fields (\<^verbatim>\<open>data.get(k)\<close> is \<open>data k\<close>). It returns the calls made to the
  processor, in order, and the reply.

  \<^verbatim>\<open>create_payment_intent\<close>, lines 62 to 112 of \<^verbatim>\<open>app.py\<close>.
\<close>

definition create_payment_intent ::
  "string option \<Rightarrow> stripe \<Rightarrow> (string \<rightharpoonup> string) \<Rightarrow> stripe_call list \<times> reply" where
  "create_payment_intent api_key stripe data =
     (let amount_raw = data ''amount'';
          payment_method_id = data ''payment_method_id'';
          email = data ''email''
      in if \<not> truthy api_key then
           ([], Response 500 [(''error'', JString ''Stripe secret key not set.'')])
         else if \<not> truthy payment_method_id then
           ([], Response 400 [(''error'', JString ''Payment method is required.'')])
         else
           (case parse_amount_to_cents amount_raw of
              Inl (ValueError exc) \<Rightarrow>
                ([], Response 400 [(''status'', JString ''false''), (''message'', JString exc)])
            | Inl e \<Rightarrow> ([], Unhandled e)
            | Inr amount_cents \<Rightarrow>
                (let call = PaymentIntent_create amount_cents ''usd'' payment_method_id
                              (py_or email None) True
                 in ([call],
                     (case stripe call of
                        Inr intent \<Rightarrow>
                          if status intent = ''requires_action'' then
                            Response 200
                              [(''status'', JString ''requires_action''),
                               (''payment_intent_id'', JString (intent_id intent)),
                               (''client_secret'', JString (client_secret intent))]
                          else
                            Response 200
                              [(''status'', JString ''true''),
                               (''message'',
                                  JString (''your donation sucessfull '' @
                                           format_amount_from_cents amount_cents)),
                               (''payment_intent_id'', JString (intent_id intent)),
                               (''client_secret'', JString (client_secret intent))]
                      | Inl (CardError exc) \<Rightarrow>
                          Response 402
                            [(''status'', JString (status_from_card_error exc)),
                             (''message'', json_of (user_message exc))]
                      | Inl (OtherException detail) \<Rightarrow>
                          Response 500
                            [(''status'', JString ''false''),
                             (''message'', JString ''Unable to create payment intent.'')])))))"

text \<open>\<^verbatim>\<open>confirm_payment_intent\<close>, lines 115 to 150 of \<^verbatim>\<open>app.py\<close>. It never reads the key.\<close>

definition confirm_payment_intent ::
  "string option \<Rightarrow> stripe \<Rightarrow> (string \<rightharpoonup> string) \<Rightarrow> stripe_call list \<times> reply" where
  "confirm_payment_intent api_key stripe data =
     (let payment_intent_id = data ''payment_intent_id''
      in if \<not> truthy payment_intent_id then
           ([], Response 400 [(''status'', JString ''false''),
                              (''message'', JString ''Payment intent id is required.'')])
         else
           (let call = PaymentIntent_confirm payment_intent_id
            in ([call],
                (case stripe call of
                   Inr intent \<Rightarrow>
                     if status intent = ''requires_action'' then
                       Response 200
                         [(''status'', JString ''requires_action''),
                          (''payment_intent_id'', JString (intent_id intent)),
                          (''client_secret'', JString (client_secret intent))]
                     else
                       Response 200
                         [(''status'', JString ''true''),
                          (''message'',
                             JString (''your donation sucessfull '' @
                                      format_amount_from_cents (amount intent))),
                          (''payment_intent_id'', JString (intent_id intent)),
                          (''client_secret'', JString (client_secret intent))]
                 | Inl (CardError exc) \<Rightarrow>
                     Response 402
                       [(''status'', JString (status_from_card_error exc)),
                        (''message'', json_of (user_message exc))]
                 | Inl (OtherException detail) \<Rightarrow>
                     Response 500
                       [(''status'', JString ''false''),
                        (''message'', JString ''Unable to confirm payment intent.'')]))))"

section \<open>Notions of the specification\<close>

text \<open>
  The number that a finite \<^verbatim>\<open>Decimal\<close> denotes, as a rational:
  \<open>\<plusminus> c * 10 ^ e\<close>.
\<close>

definition decimal_value :: "bool \<Rightarrow> nat \<Rightarrow> int \<Rightarrow> rat" where
  "decimal_value s c e =
     (if s then - 1 else 1) * of_nat c * (if 0 \<le> e then 10 ^ nat e else 1 / 10 ^ nat (- e))"

text \<open>
  Rounding a rational to the nearest integer, a tie going to the even neighbour
  (round-half-to-even). Rounding a value to two fractional digits and multiplying by
  100 is rounding 100 times the value to an integer.
\<close>

definition round_half_even :: "rat \<Rightarrow> int" where
  "round_half_even x =
     (let f = \<lfloor>x\<rfloor>; d = x - of_int f
      in if d < 1 / 2 then f
         else if 1 / 2 < d then f + 1
         else if even f then f else f + 1)"

text \<open>
  A non-negative value rendered with exactly two fractional digits: the integer
  part in decimal notation, a point, the digit of the tenths and the digit of the
  hundredths.
\<close>

definition render_2dp :: "rat \<Rightarrow> string" where
  "render_2dp v =
     str_nat (nat \<lfloor>v\<rfloor>) @ ''.'' @
     [digit_char (nat (\<lfloor>v * 10\<rfloor> mod 10)), digit_char (nat (\<lfloor>v * 100\<rfloor> mod 10))]"

section \<open>An example request and three stub processors\<close>

text \<open>
  The request of the end-to-end examples of the specification, a card error for
  insufficient funds, an intent that the processor reports as authorized for 19.99,
  and processors that always decline, always fail, or always authorize.
\<close>

definition example_request :: "string \<rightharpoonup> string" where
  "example_request =
     [''amount'' \<mapsto> ''25.00'', ''payment_method_id'' \<mapsto> ''pm_test'',
      ''email'' \<mapsto> ''a@b.com'', ''payment_intent_id'' \<mapsto> ''pi_1'']"

definition example_card_error :: card_error where
  "example_card_error =
     \<lparr>code = Some ''insufficient_funds'', error_code = Some ''insufficient_funds'',
      user_message = Some ''Your card has insufficient funds.''\<rparr>"

definition example_intent :: payment_intent where
  "example_intent =
     \<lparr>intent_id = ''pi_1'', client_secret = ''pi_1_secret'', status = ''succeeded'', amount = 1999\<rparr>"

definition declining_processor :: stripe where
  "declining_processor call = Inl (CardError example_card_error)"

definition failing_processor :: stripe where
  "failing_processor call = Inl (OtherException ''Connection refused by api.stripe.com'')"

definition authorizing_processor :: stripe where
  "authorizing_processor call = Inr example_intent"

section \<open>Digits, rounding and the precision of the context\<close>

text \<open>A coefficient has at most \<open>k\<close> digits exactly when it is below \<open>10 ^ k\<close>.\<close>

lemma ndigits_pos: "0 < ndigits n"
  by (subst ndigits.simps) simp

lemma ndigits_le_iff: "0 < k \<Longrightarrow> ndigits n \<le> k \<longleftrightarrow> n < 10 ^ k"
proof (induction n arbitrary: k rule: ndigits.induct)
  case (1 n)
  show ?case
  proof (cases "n < 10")
    case True
    have "(10::nat) ^ 1 \<le> 10 ^ k" using 1(2) by (intro power_increasing) simp_all
    with True have "n < 10 ^ k" by simp
    moreover have "ndigits n = 1" using True by (subst ndigits.simps) simp
    ultimately show ?thesis using 1(2) by simp
  next
    case False
    then have nd: "ndigits n = Suc (ndigits (n div 10))" by (subst ndigits.simps) simp
    show ?thesis
    proof (cases "k = 1")
      case True
      then show ?thesis using False nd ndigits_pos [of "n div 10"] by simp
    next
      case k: False
      then obtain j where j: "k = Suc j" "0 < j" using 1(2) by (cases k) auto
      have "ndigits (n div 10) \<le> j \<longleftrightarrow> n div 10 < 10 ^ j"
        using 1(1) [OF False j(2)] .
      also have "\<dots> \<longleftrightarrow> n < 10 ^ j * 10"
        by (simp add: div_less_iff_less_mult)
      finally show ?thesis using nd j by (simp add: mult.commute)
    qed
  qed
qed

lemma prec_less_ndigits: "prec < ndigits m \<longleftrightarrow> 10 ^ 28 \<le> m"
  using ndigits_le_iff [of 28 m] by (simp add: prec_def not_le [symmetric] del: not_le)

text \<open>
  Rounding on coefficients agrees with round-half-to-even on the rationals, so
  \<open>rescale\<close> at the exponent \<open>-2\<close> computes the amount in cents that the
  specification describes.
\<close>

lemma round_half_even_div_exact: "0 < p \<Longrightarrow> c mod p = 0 \<Longrightarrow> round_half_even_div c p = c div p"
  by (simp add: round_half_even_div_def)

lemma round_half_even_of_int: "round_half_even (of_int z) = z"
  by (simp add: round_half_even_def)

lemma round_half_even_divide:
  assumes "0 < p"
  shows "round_half_even (of_nat c / of_nat p) = int (round_half_even_div c p)"
proof -
  define q r where "q = c div p" and "r = c mod p"
  have c: "c = q * p + r" by (simp add: q_def r_def)
  have fl: "\<lfloor>(of_nat c / of_nat p :: rat)\<rfloor> = int q"
    by (simp add: q_def floor_divide_of_nat_eq)
  have d: "(of_nat c / of_nat p :: rat) - of_int (int q) = of_nat r / of_nat p"
    using assms by (simp add: c field_simps)
  have lt: "(of_nat r / of_nat p :: rat) < 1 / 2 \<longleftrightarrow> 2 * r < p"
  proof -
    have "(of_nat r / of_nat p :: rat) < 1 / 2 \<longleftrightarrow> (of_nat (2 * r) :: rat) < of_nat p"
      using assms by (simp add: field_simps)
    then show ?thesis by (simp only: of_nat_less_iff)
  qed
  have gt: "1 / 2 < (of_nat r / of_nat p :: rat) \<longleftrightarrow> p < 2 * r"
  proof -
    have "1 / 2 < (of_nat r / of_nat p :: rat) \<longleftrightarrow> (of_nat p :: rat) < of_nat (2 * r)"
      using assms by (simp add: field_simps)
    then show ?thesis by (simp only: of_nat_less_iff)
  qed
  show ?thesis
    unfolding round_half_even_def round_half_even_div_def Let_def fl d lt gt q_def [symmetric] r_def [symmetric]
    by simp
qed


lemma round_half_even_nonpos: "x \<le> 0 \<Longrightarrow> round_half_even x \<le> 0"
proof -
  assume x: "x \<le> 0"
  then have f: "\<lfloor>x\<rfloor> \<le> 0" by (simp add: floor_le_iff)
  show ?thesis
  proof (cases "\<lfloor>x\<rfloor> = 0")
    case True
    then have "0 \<le> x" by (metis of_int_floor_le of_int_0)
    with x have "x = 0" by simp
    then show ?thesis by (simp add: round_half_even_def)
  next
    case False
    with f have "\<lfloor>x\<rfloor> + 1 \<le> 0" by linarith
    with f show ?thesis unfolding round_half_even_def Let_def by presburger
  qed
qed

lemma decimal_value_neg: "decimal_value True c e \<le> 0"
  by (simp add: decimal_value_def mult_le_0_iff)

lemma decimal_value_pos: "0 < decimal_value sg c e \<Longrightarrow> \<not> sg"
  using decimal_value_neg [of c e] by (cases sg) auto

lemma round_half_even_pos_value:
  assumes "0 < round_half_even (decimal_value sg c e * 100)"
  shows "\<not> sg"
proof
  assume sg
  then have "decimal_value sg c e * 100 \<le> 0"
    using decimal_value_neg [of c e] by (simp add: mult_le_0_iff)
  from round_half_even_nonpos [OF this] assms show False by simp
qed

lemma rescale_cents:
  "int (rescale c e (- 2)) = round_half_even (decimal_value False c e * 100)"
proof (cases "- 2 \<le> e")
  case True
  have "decimal_value False c e * 100 = of_int (int (c * 10 ^ nat (e + 2)))"
  proof (cases "0 \<le> e")
    case True
    then have "nat (e + 2) = nat e + 2" by simp
    then show ?thesis using True by (simp add: decimal_value_def power_add)
  next
    case False
    with True consider "e = - 1" | "e = - 2" by linarith
    then show ?thesis by cases (simp_all add: decimal_value_def)
  qed
  then have "round_half_even (decimal_value False c e * 100) = int (c * 10 ^ nat (e + 2))"
    by (simp only: round_half_even_of_int)
  moreover have "rescale c e (- 2) = c * 10 ^ nat (e + 2)"
    using True by (simp add: rescale_def)
  ultimately show ?thesis by simp
next
  case False
  then have e: "nat (- e) = nat (- 2 - e) + 2" by simp
  have "decimal_value False c e * 100 = of_nat c / of_nat (10 ^ nat (- 2 - e))"
    using False by (simp add: decimal_value_def e power_add)
  then show ?thesis using False
    by (simp add: rescale_def round_half_even_divide del: of_nat_power)
qed

text \<open>
  \<^verbatim>\<open>int(amount * 100)\<close> is exact on a quantized amount: the product may exceed the
  precision, but only by the two zeros that the multiplication appended.
\<close>

lemma int_of_times_100:
  assumes m: "m < 10 ^ 28"
  shows "int_of_decimal (fix_prec (Finite s (m * 100) (- 2))) = Inr ((if s then - 1 else 1) * int m)"
proof -
  define x where "x = m * 100"
  have x30: "ndigits x \<le> 30"
    using m ndigits_le_iff [of 30 x] by (simp add: x_def)
  consider "ndigits x \<le> 28" | "ndigits x = 29" | "ndigits x = 30"
    using x30 by linarith
  then show ?thesis
  proof cases
    case 1
    then show ?thesis by (simp add: x_def [symmetric] prec_def) (simp add: x_def)
  next
    case 2
    then have "x < 10 ^ 29" using ndigits_le_iff [of 29 x] by simp
    then have m10: "m * 10 < 10 ^ 28" by (simp add: x_def)
    have r: "round_half_even_div x (10 ^ 1) = m * 10"
      by (subst round_half_even_div_exact) (simp_all add: x_def)
    have n: "ndigits (m * 10) \<le> 28" using m10 ndigits_le_iff [of 28 "m * 10"] by simp
    show ?thesis using 2 r n by (simp add: x_def [symmetric] prec_def)
  next
    case 3
    have r: "round_half_even_div x (10 ^ 2) = m"
      by (subst round_half_even_div_exact) (simp_all add: x_def)
    have n: "ndigits m \<le> 28" using m ndigits_le_iff [of 28 m] by simp
    show ?thesis using 3 r n by (simp add: x_def [symmetric] prec_def)
  qed
qed

section \<open>What \<^verbatim>\<open>_parse_amount_to_cents\<close> returns\<close>

text \<open>
  On a string that denotes a finite number the function depends on the rescaled
  coefficient alone: 29 digits or more are an invalid amount, zero and negative
  numbers are rejected, everything else is the amount in cents.
\<close>

lemma parse_amount_finite:
  assumes "decimal_of_string s = Some (Finite sg c e)"
  shows "parse_amount_to_cents (Some s) =
           (let m = rescale c e (- 2)
            in if 10 ^ 28 \<le> m then Inl (ValueError ''Invalid amount.'')
               else if sg \<or> m = 0 then Inl (ValueError ''Amount must be greater than zero.'')
               else Inr (int m))"
proof -
  define m where "m = rescale c e (- 2)"
  show ?thesis
  proof (cases "10 ^ 28 \<le> m")
    case True
    then show ?thesis using assms
      by (simp add: parse_amount_to_cents_def m_def [symmetric] prec_less_ndigits)
  next
    case False
    then have "m < 10 ^ 28" by simp
    from int_of_times_100 [OF this, of sg] False show ?thesis using assms
      by (cases sg) (simp_all add: parse_amount_to_cents_def m_def [symmetric] prec_less_ndigits
               del: fix_prec.simps)
  qed
qed

lemma parse_amount_invalid:
  "decimal_of_string s = None \<or> decimal_of_string s = Some (Infinity sg) \<or> decimal_of_string s = Some (SNaN sg)
   \<Longrightarrow> parse_amount_to_cents (Some s) = Inl (ValueError ''Invalid amount.'')"
  by (auto simp add: parse_amount_to_cents_def)

lemma parse_amount_NaN:
  "decimal_of_string s = Some (NaN sg) \<Longrightarrow> parse_amount_to_cents (Some s) = Inl InvalidOperation"
  by (simp add: parse_amount_to_cents_def)

lemma parse_amount_rejects_listed:
  "parse_amount_to_cents None = Inl (ValueError ''Invalid amount.'')"
  "parse_amount_to_cents (Some []) = Inl (ValueError ''Invalid amount.'')"
  "decimal_of_string s = None \<Longrightarrow> parse_amount_to_cents (Some s) = Inl (ValueError ''Invalid amount.'')"
  "parse_amount_to_cents (Some ''0'') = Inl (ValueError ''Amount must be greater than zero.'')"
proof -
  show "parse_amount_to_cents None = Inl (ValueError ''Invalid amount.'')"
    by (simp add: parse_amount_to_cents_def)
  show "parse_amount_to_cents (Some []) = Inl (ValueError ''Invalid amount.'')"
    by code_simp
  show "decimal_of_string s = None \<Longrightarrow> parse_amount_to_cents (Some s) = Inl (ValueError ''Invalid amount.'')"
    by (simp add: parse_amount_to_cents_def)
  show "parse_amount_to_cents (Some ''0'') = Inl (ValueError ''Amount must be greater than zero.'')"
    by code_simp
qed

lemma parse_amount_rejects_nonpositive:
  assumes "decimal_of_string s = Some (Finite sg c e)"
      and "decimal_value sg c e < 0 \<or> round_half_even (decimal_value sg c e * 100) \<le> 0"
  shows "\<exists>msg. parse_amount_to_cents (Some s) = Inl (ValueError msg)"
proof (cases sg)
  case True
  then show ?thesis using parse_amount_finite [OF assms(1)] by (simp add: Let_def)
next
  case False
  then have "0 \<le> decimal_value sg c e" by (simp add: decimal_value_def)
  with assms(2) have "round_half_even (decimal_value False c e * 100) \<le> 0"
    using False by simp
  then have "rescale c e (- 2) = 0" using rescale_cents [of c e] by simp
  then show ?thesis using parse_amount_finite [OF assms(1)] by (simp add: Let_def)
qed

text \<open>
  The three outcomes of the function: a positive amount, a \<^verbatim>\<open>ValueError\<close>, or the
  \<^verbatim>\<open>InvalidOperation\<close> of the comparison, which happens on the NaN strings only.
\<close>

lemma parse_amount_outcomes:
  "(\<exists>n. parse_amount_to_cents raw = Inr n \<and> 0 < n) \<or>
   (\<exists>msg. parse_amount_to_cents raw = Inl (ValueError msg)) \<or>
   (parse_amount_to_cents raw = Inl InvalidOperation \<and>
    (\<exists>s sg. raw = Some s \<and> decimal_of_string s = Some (NaN sg)))"
proof (cases raw)
  case None
  then show ?thesis by (simp add: parse_amount_to_cents_def)
next
  case (Some s)
  show ?thesis
  proof (cases "decimal_of_string s")
    case None
    then show ?thesis using Some by (simp add: parse_amount_to_cents_def)
  next
    case (Some d)
    show ?thesis
    proof (cases d)
      case (Finite sg c e)
      then show ?thesis using \<open>raw = Some s\<close> Some parse_amount_finite [of s sg c e]
        by (simp add: Let_def)
    qed (use \<open>raw = Some s\<close> Some in \<open>simp_all add: parse_amount_to_cents_def\<close>)
  qed
qed

section \<open>What \<^verbatim>\<open>_format_amount_from_cents\<close> returns\<close>

text \<open>
  Below \<open>10 ^ 28\<close> cents the division by 100 is exact and the string is the sign,
  the integer part, a point and the two last digits.
\<close>

lemma format_amount_small:
  assumes "\<bar>n\<bar> < 10 ^ 28"
  shows "format_amount_from_cents n =
           (if n < 0 then ''-'' else '''') @ str_nat (nat \<bar>n\<bar> div 100) @ ''.'' @
           [digit_char (nat \<bar>n\<bar> div 10 mod 10), digit_char (nat \<bar>n\<bar> mod 10)]"
proof -
  define m where "m = nat \<bar>n\<bar>"
  have m: "m < 10 ^ 28" using assms by (simp add: m_def)
  have n1: "ndigits (m div 100) \<le> prec"
    using m ndigits_le_iff [of 28 "m div 100"] by (simp add: prec_def div_less_iff_less_mult)
  have n2: "ndigits (m div 10) \<le> prec"
    using m ndigits_le_iff [of 28 "m div 10"] by (simp add: prec_def div_less_iff_less_mult)
  have n3: "ndigits m \<le> prec"
    using m ndigits_le_iff [of 28 m] by (simp add: prec_def)
  have r1: "m mod 100 = 0 \<Longrightarrow> rescale (m div 100) 0 (- 2) = m"
    by (auto simp add: rescale_def)
  have r2: "m mod 10 = 0 \<Longrightarrow> rescale (m div 10) (- 1) (- 2) = m"
    by (auto simp add: rescale_def)
  have r3: "rescale m (- 2) (- 2) = m"
    by (simp add: rescale_def)
  show ?thesis
    unfolding format_amount_from_cents_def decimal_of_int_div_100_def Let_def m_def [symmetric]
    using n1 n2 n3 r1 r2 r3 by simp
qed

lemma render_2dp_cents: "render_2dp (of_nat m / 100) =
   str_nat (m div 100) @ ''.'' @ [digit_char (m div 10 mod 10), digit_char (m mod 10)]"
proof -
  have a: "\<lfloor>(of_nat m / 100 :: rat)\<rfloor> = int (m div 100)"
    using floor_divide_of_nat_eq [of m 100, where ?'a = rat] by simp
  have b: "\<lfloor>(of_nat m / 100 * 10 :: rat)\<rfloor> = int (m div 10)"
    using floor_divide_of_nat_eq [of m 10, where ?'a = rat] by simp
  have c: "\<lfloor>(of_nat m / 100 * 100 :: rat)\<rfloor> = int m"
    by simp
  have d: "nat (int (m div 10) mod 10) = m div 10 mod 10"
    by (metis nat_int of_nat_numeral zmod_int)
  have e: "nat (int m mod 10) = m mod 10"
    by (metis nat_int of_nat_numeral zmod_int)
  show ?thesis unfolding render_2dp_def a b c by (simp add: d e)
qed

text \<open>
  The string that \<^verbatim>\<open>_format_amount_from_cents\<close> produces reads back, through
  \<^verbatim>\<open>Decimal\<close>, as the same number of cents at the exponent \<open>-2\<close>; so parsing a
  formatted amount returns the cents that were formatted.
\<close>

lemma digit_chars: "map digit_char [0, 1, 2, 3, 4, 5, 6, 7, 8, 9] = ''0123456789''"
  by code_simp

lemma digit_char_cases:
  assumes "n < 10"
  shows "digit_char n \<in> set ''0123456789''"
proof -
  have "n < length [0, 1, 2, 3, 4, 5, 6, 7, 8, 9 :: nat]" using assms by simp
  moreover have "[0, 1, 2, 3, 4, 5, 6, 7, 8, 9 :: nat] ! n = n"
    using assms by (auto simp add: nth_Cons' less_Suc_eq numeral_eq_Suc)
  ultimately have "digit_char n \<in> set (map digit_char [0, 1, 2, 3, 4, 5, 6, 7, 8, 9])"
    by (metis length_map nth_map nth_mem)
  then show ?thesis unfolding digit_chars .
qed

lemma is_digit_digit_char: "n < 10 \<Longrightarrow> is_digit (digit_char n)"
  unfolding is_digit_def by (rule digit_char_cases)

lemma digit_value_digit_char: "n < 10 \<Longrightarrow> digit_value (digit_char n) = n"
  by (simp add: digit_value_def digit_char_def)

lemma is_digit_not_special:
  assumes "is_digit c"
  shows "\<not> is_space c" "c \<noteq> CHR ''_''" "c \<noteq> CHR ''-''" "c \<noteq> CHR ''+''" "c \<noteq> CHR ''.''"
  using assms by (auto simp add: is_digit_def is_space_def)

lemma dot_not_special: "\<not> is_digit (CHR ''.'')" "\<not> is_space (CHR ''.'')"
  by (simp_all add: is_digit_def is_space_def)

lemma str_nat_digits: "list_all is_digit (str_nat n)"
proof (induction n rule: str_nat.induct)
  case (1 n)
  show ?case
  proof (cases "n < 10")
    case True
    then show ?thesis by (subst str_nat.simps) (simp add: is_digit_digit_char)
  next
    case False
    then show ?thesis using 1 by (subst str_nat.simps) (simp add: is_digit_digit_char)
  qed
qed

lemma str_nat_nonempty: "str_nat n \<noteq> []"
  by (subst str_nat.simps) simp

lemma int_of_digits_snoc: "int_of_digits (ds @ [c]) = 10 * int_of_digits ds + digit_value c"
  by (simp add: int_of_digits_def)

lemma int_of_digits_str_nat: "int_of_digits (str_nat n) = n"
proof (induction n rule: str_nat.induct)
  case (1 n)
  show ?case
  proof (cases "n < 10")
    case True
    then show ?thesis
      by (subst str_nat.simps) (simp add: int_of_digits_def digit_value_digit_char)
  next
    case False
    then show ?thesis using 1
      by (subst str_nat.simps) (simp add: int_of_digits_snoc digit_value_digit_char)
  qed
qed

lemma decimal_of_two_places:
  assumes ip: "ip \<noteq> []" "list_all is_digit ip" and d: "is_digit d1" "is_digit d2"
  shows "decimal_of_string (ip @ ''.'' @ [d1, d2]) =
           Some (Finite False (int_of_digits (ip @ [d1, d2])) (- 2))"
proof -
  define t where "t = ip @ ''.'' @ [d1, d2]"
  obtain x xs where x: "ip = x # xs" using ip(1) by (cases ip) auto
  have dx: "is_digit x" using ip(2) x by simp
  have all: "\<forall>c \<in> set ip. is_digit c" using ip(2) by (simp add: list_all_iff)
  have "dropWhile is_space t = t"
    using is_digit_not_special(1) [OF dx] by (simp add: t_def x)
  moreover have "dropWhile is_space (rev t) = rev t"
    using is_digit_not_special(1) [OF d(2)] by (simp add: t_def)
  ultimately have strip: "strip t = t" by (simp add: strip_def)
  have "\<forall>c \<in> set t. c \<noteq> CHR ''_''"
    using all d is_digit_not_special(2) by (auto simp add: t_def)
  then have filt: "filter (\<lambda>c. c \<noteq> CHR ''_'') t = t" by (simp add: filter_id_conv)
  have sign: "parse_sign t = (False, t)"
    using is_digit_not_special(3,4) [OF dx] by (simp add: t_def x)
  have tw: "takeWhile is_digit t = ip"
    using all dot_not_special(1) by (simp add: t_def takeWhile_tail)
  have dw: "dropWhile is_digit t = CHR ''.'' # [d1, d2]"
    using all dot_not_special(1) by (simp add: t_def dropWhile_append2)
  have num: "parse_number False t = Some (Finite False (int_of_digits (ip @ [d1, d2])) (- 2))"
    unfolding parse_number_def tw dw using ip(1) d by simp
  show ?thesis
    unfolding t_def [symmetric] decimal_of_string_def strip filt sign by (simp add: num)
qed

lemma digits_recompose: "10 * (10 * (m div 100) + m div 10 mod 10) + m mod 10 = (m::nat)"
proof -
  have "m div 100 = m div 10 div 10" by (simp add: div_mult2_eq)
  then have "10 * (m div 100) + m div 10 mod 10 = m div 10" by simp
  then show ?thesis by simp
qed

lemma int_of_formatted_digits:
  "int_of_digits (str_nat (m div 100) @ [digit_char (m div 10 mod 10), digit_char (m mod 10)]) = m"
proof -
  have "int_of_digits ((str_nat (m div 100) @ [digit_char (m div 10 mod 10)]) @ [digit_char (m mod 10)])
          = 10 * (10 * (m div 100) + m div 10 mod 10) + m mod 10"
    unfolding int_of_digits_snoc int_of_digits_str_nat
    by (simp add: digit_value_digit_char)
  then show ?thesis unfolding digits_recompose by simp
qed

lemma decimal_of_format_amount:
  assumes "0 \<le> n" "n < 10 ^ 28"
  shows "decimal_of_string (format_amount_from_cents n) = Some (Finite False (nat n) (- 2))"
proof -
  define m where "m = nat n"
  have n: "n = int m" using assms(1) by (simp add: m_def)
  have "\<bar>n\<bar> < 10 ^ 28" using assms by simp
  from format_amount_small [OF this]
  have f: "format_amount_from_cents n =
             str_nat (m div 100) @ ''.'' @ [digit_char (m div 10 mod 10), digit_char (m mod 10)]"
    unfolding n by simp
  have "decimal_of_string (str_nat (m div 100) @ ''.'' @ [digit_char (m div 10 mod 10), digit_char (m mod 10)]) =
          Some (Finite False (int_of_digits (str_nat (m div 100) @ [digit_char (m div 10 mod 10), digit_char (m mod 10)])) (- 2))"
    by (rule decimal_of_two_places [OF str_nat_nonempty str_nat_digits])
       (simp_all add: is_digit_digit_char)
  then show ?thesis
    unfolding f int_of_formatted_digits m_def .
qed

lemma parse_format_amount:
  assumes "0 < n" "n < 10 ^ 28"
  shows "parse_amount_to_cents (Some (format_amount_from_cents n)) = Inr n"
proof -
  have d: "decimal_of_string (format_amount_from_cents n) = Some (Finite False (nat n) (- 2))"
    using assms by (intro decimal_of_format_amount) simp_all
  have r: "rescale (nat n) (- 2) (- 2) = nat n" by (simp add: rescale_def)
  have "nat n < 10 ^ 28" using assms by (simp add: nat_less_iff)
  then show ?thesis using parse_amount_finite [OF d] assms(1) unfolding r Let_def by simp
qed

section \<open>The handlers on a rejected amount and on the example request\<close>

lemma create_payment_intent_invalid_amount:
  assumes "truthy api_key" and "truthy (data ''payment_method_id'')"
      and "parse_amount_to_cents (data ''amount'') = Inl (ValueError msg)"
  shows "create_payment_intent api_key stripe data =
           ([], Response 400 [(''status'', JString ''false''), (''message'', JString msg)])"
  using assms by (simp add: create_payment_intent_def)

lemma create_payment_intent_parse_failure_no_call:
  assumes "parse_amount_to_cents (data ''amount'') = Inl e"
  shows "fst (create_payment_intent api_key stripe data) = []"
  using assms by (cases e) (simp_all add: create_payment_intent_def Let_def)

lemma example_request_fields:
  "example_request ''amount'' = Some ''25.00''"
  "example_request ''payment_method_id'' = Some ''pm_test''"
  "example_request ''email'' = Some ''a@b.com''"
  "example_request ''payment_intent_id'' = Some ''pi_1''"
  by (simp_all add: example_request_def)

lemma example_amount: "parse_amount_to_cents (Some ''25.00'') = Inr 2500"
  by code_simp

section \<open>The claims\<close>

subsection \<open>C1: the amount in cents\<close>

text \<open>
  C1, as the code has it. For every string that \<^verbatim>\<open>Decimal\<close> reads as a finite number,
  \<^verbatim>\<open>_parse_amount_to_cents\<close> returns the value rounded to two fractional digits
  (round-half-to-even) times 100, as an integer, provided that this amount in cents is
  strictly positive and below \<open>10 ^ 28\<close>, that is, the rounded value fits the 28 digits
  of the decimal context. In particular \<^verbatim>\<open>"10"\<close> gives 1000, \<^verbatim>\<open>"9.999"\<close> gives 1000,
  and \<^verbatim>\<open>"0.004"\<close> rounds to 0 and is rejected.
\<close>

theorem parse_amount_to_cents_rounded:
  "(\<forall>s sg c e.
      decimal_of_string s = Some (Finite sg c e) \<and>
      0 < round_half_even (decimal_value sg c e * 100) \<and>
      round_half_even (decimal_value sg c e * 100) < 10 ^ 28 \<longrightarrow>
      parse_amount_to_cents (Some s) = Inr (round_half_even (decimal_value sg c e * 100))) \<and>
   parse_amount_to_cents (Some ''10'') = Inr 1000 \<and>
   parse_amount_to_cents (Some ''9.999'') = Inr 1000 \<and>
   round_half_even (decimal_value False 4 (- 3) * 100) = 0 \<and>
   parse_amount_to_cents (Some ''0.004'') = Inl (ValueError ''Amount must be greater than zero.'')"
proof (intro conjI allI impI)
  fix s sg c e
  assume a: "decimal_of_string s = Some (Finite sg c e) \<and>
      0 < round_half_even (decimal_value sg c e * 100) \<and>
      round_half_even (decimal_value sg c e * 100) < 10 ^ 28"
  then have sg: "\<not> sg" using round_half_even_pos_value by blast
  define m where "m = rescale c e (- 2)"
  have r: "round_half_even (decimal_value sg c e * 100) = int m"
    using sg rescale_cents [of c e] by (simp add: m_def)
  from a have "0 < int m" "int m < 10 ^ 28" unfolding r by simp_all
  then have "0 < m" "\<not> 10 ^ 28 \<le> m" by simp_all
  then show "parse_amount_to_cents (Some s) = Inr (round_half_even (decimal_value sg c e * 100))"
    using a sg parse_amount_finite [of s sg c e] unfolding r m_def [symmetric] by simp
next
  show "parse_amount_to_cents (Some ''10'') = Inr 1000" by code_simp
  show "parse_amount_to_cents (Some ''9.999'') = Inr 1000" by code_simp
  show "round_half_even (decimal_value False 4 (- 3) * 100) = 0" by code_simp
  show "parse_amount_to_cents (Some ''0.004'') = Inl (ValueError ''Amount must be greater than zero.'')"
    by code_simp
qed

text \<open>The theorem at \<^verbatim>\<open>"12.345"\<close>, a tie that goes down to the even cent 1234.\<close>

theorem parse_amount_to_cents_rounded_witness:
  "decimal_of_string ''12.345'' = Some (Finite False 12345 (- 3)) \<and>
   0 < round_half_even (decimal_value False 12345 (- 3) * 100) \<and>
   round_half_even (decimal_value False 12345 (- 3) * 100) < 10 ^ 28 \<and>
   parse_amount_to_cents (Some ''12.345'') = Inr 1234"
proof -
  have d: "decimal_of_string ''12.345'' = Some (Finite False 12345 (- 3))" by code_simp
  have r: "round_half_even (decimal_value False 12345 (- 3) * 100) = 1234" by code_simp
  have g: "\<forall>s sg c e.
      decimal_of_string s = Some (Finite sg c e) \<and>
      0 < round_half_even (decimal_value sg c e * 100) \<and>
      round_half_even (decimal_value sg c e * 100) < 10 ^ 28 \<longrightarrow>
      parse_amount_to_cents (Some s) = Inr (round_half_even (decimal_value sg c e * 100))"
    using parse_amount_to_cents_rounded by (rule conjunct1)
  have "parse_amount_to_cents (Some ''12.345'') = Inr 1234"
    using g [rule_format, of "''12.345''" False 12345 "- 3"] d r by simp
  then show ?thesis using d r by simp
qed

text \<open>
  Without the bound the statement fails: \<^verbatim>\<open>"1e26"\<close> denotes a number whose rounded
  value is positive, yet \<^verbatim>\<open>quantize\<close> signals \<^verbatim>\<open>InvalidOperation\<close>, which the
  \<^verbatim>\<open>except\<close> clause turns into \<^verbatim>\<open>ValueError("Invalid amount.")\<close>.
\<close>

theorem parse_amount_to_cents_large_counterexample:
  "decimal_of_string ''1e26'' = Some (Finite False 1 26) \<and>
   0 < round_half_even (decimal_value False 1 26 * 100) \<and>
   parse_amount_to_cents (Some ''1e26'') \<noteq> Inr (round_half_even (decimal_value False 1 26 * 100))"
proof -
  have d: "decimal_of_string ''1e26'' = Some (Finite False 1 26)" by code_simp
  have r: "round_half_even (decimal_value False 1 26 * 100) = 10 ^ 28" by code_simp
  have p: "parse_amount_to_cents (Some ''1e26'') = Inl (ValueError ''Invalid amount.'')" by code_simp
  show ?thesis unfolding d r p by simp
qed

subsection \<open>C2: the rejected inputs\<close>

text \<open>
  C2 says that a string that is no number is rejected with the validation error and
  with no other outcome. The string \<^verbatim>\<open>"NaN"\<close> is accepted by \<^verbatim>\<open>Decimal\<close> and passes
  \<^verbatim>\<open>quantize\<close> unchanged; the comparison \<^verbatim>\<open>amount <= 0\<close>, which stands outside the
  \<^verbatim>\<open>try\<close>, then raises \<^verbatim>\<open>decimal.InvalidOperation\<close>, which is no \<^verbatim>\<open>ValueError\<close>.
  The other inputs that the claim lists are rejected with a \<^verbatim>\<open>ValueError\<close>, as the
  lemmas of the section on \<^verbatim>\<open>_parse_amount_to_cents\<close> show.
\<close>

theorem parse_amount_to_cents_NaN_escapes:
  "decimal_of_string ''NaN'' = Some (NaN False) \<and>
   parse_amount_to_cents (Some ''NaN'') = Inl InvalidOperation"
proof -
  have d: "decimal_of_string ''NaN'' = Some (NaN False)" by code_simp
  then show ?thesis by (simp add: parse_amount_to_cents_def)
qed

subsection \<open>C3: the status of a card error\<close>

text \<open>
  C3. The code of a card error is its own code or, when that is absent or empty, the
  code of the nested error object. \<^verbatim>\<open>_status_from_card_error\<close> maps the code
  \<^verbatim>\<open>incorrect_cvc\<close> to \<^verbatim>\<open>live\<close>, \<^verbatim>\<open>insufficient_funds\<close> to \<^verbatim>\<open>live\<close>, and every other
  code to \<^verbatim>\<open>false\<close>, among them \<^verbatim>\<open>card_declined\<close> and no code at all.
\<close>

theorem status_from_card_error_classifies:
  "(py_or (code error) (error_code error) = Some ''incorrect_cvc'' \<longrightarrow>
      status_from_card_error error = ''live'') \<and>
   (py_or (code error) (error_code error) = Some ''insufficient_funds'' \<longrightarrow>
      status_from_card_error error = ''live'') \<and>
   (py_or (code error) (error_code error) \<noteq> Some ''incorrect_cvc'' \<and>
    py_or (code error) (error_code error) \<noteq> Some ''insufficient_funds'' \<longrightarrow>
      status_from_card_error error = ''false'') \<and>
   status_from_card_error \<lparr>code = Some ''incorrect_cvc'', error_code = ec, user_message = um\<rparr> = ''live'' \<and>
   status_from_card_error \<lparr>code = Some ''insufficient_funds'', error_code = ec, user_message = um\<rparr> = ''live'' \<and>
   status_from_card_error \<lparr>code = Some ''card_declined'', error_code = ec, user_message = um\<rparr> = ''false'' \<and>
   status_from_card_error \<lparr>code = None, error_code = None, user_message = um\<rparr> = ''false''"
  by (simp add: status_from_card_error_def py_or_def)

text \<open>
  The theorem at an error with the code \<^verbatim>\<open>incorrect_cvc\<close>, at an error whose code
  \<^verbatim>\<open>insufficient_funds\<close> is only on the nested object, and at an error with the code
  \<^verbatim>\<open>expired_card\<close>.
\<close>

theorem status_from_card_error_classifies_witness:
  "py_or (code \<lparr>code = Some ''incorrect_cvc'', error_code = None, user_message = None\<rparr>)
         (error_code \<lparr>code = Some ''incorrect_cvc'', error_code = None, user_message = None\<rparr>)
     = Some ''incorrect_cvc'' \<and>
   status_from_card_error \<lparr>code = Some ''incorrect_cvc'', error_code = None, user_message = None\<rparr>
     = ''live'' \<and>
   py_or (code \<lparr>code = None, error_code = Some ''insufficient_funds'', user_message = None\<rparr>)
         (error_code \<lparr>code = None, error_code = Some ''insufficient_funds'', user_message = None\<rparr>)
     = Some ''insufficient_funds'' \<and>
   status_from_card_error \<lparr>code = None, error_code = Some ''insufficient_funds'', user_message = None\<rparr>
     = ''live'' \<and>
   py_or (code \<lparr>code = Some ''expired_card'', error_code = None, user_message = None\<rparr>)
         (error_code \<lparr>code = Some ''expired_card'', error_code = None, user_message = None\<rparr>)
     \<noteq> Some ''incorrect_cvc'' \<and>
   py_or (code \<lparr>code = Some ''expired_card'', error_code = None, user_message = None\<rparr>)
         (error_code \<lparr>code = Some ''expired_card'', error_code = None, user_message = None\<rparr>)
     \<noteq> Some ''insufficient_funds'' \<and>
   status_from_card_error \<lparr>code = Some ''expired_card'', error_code = None, user_message = None\<rparr>
     = ''false''"
  using status_from_card_error_classifies
          [of "\<lparr>code = Some ''incorrect_cvc'', error_code = None, user_message = None\<rparr>"]
        status_from_card_error_classifies
          [of "\<lparr>code = None, error_code = Some ''insufficient_funds'', user_message = None\<rparr>"]
        status_from_card_error_classifies
          [of "\<lparr>code = Some ''expired_card'', error_code = None, user_message = None\<rparr>"]
  by (simp add: py_or_def)

subsection \<open>C4: the order of the checks in \<^verbatim>\<open>create_payment_intent\<close>\<close>



subsection \<open>C5: a rejected amount in \<^verbatim>\<open>create_payment_intent\<close>\<close>

text \<open>
  C5 says that every amount on which \<^verbatim>\<open>_parse_amount_to_cents\<close> fails gives the 400
  reply with the status \<^verbatim>\<open>false\<close> and the validation message. The handler catches
  \<^verbatim>\<open>ValueError\<close> only, so on the amount \<^verbatim>\<open>"NaN"\<close> the \<^verbatim>\<open>InvalidOperation\<close> of the
  comparison leaves the handler uncaught and no such reply is made. The processor is
  not called, and every failure with a \<^verbatim>\<open>ValueError\<close> does give the 400 reply, as
  the two lemmas on a rejected amount show.
\<close>

theorem create_payment_intent_NaN_unhandled:
  "create_payment_intent (Some ''sk_test_1'') stripe
     [''amount'' \<mapsto> ''NaN'', ''payment_method_id'' \<mapsto> ''pm_card_visa''] =
   ([], Unhandled InvalidOperation)"
proof -
  have "parse_amount_to_cents (Some ''NaN'') = Inl InvalidOperation" by code_simp
  then show ?thesis by (simp add: create_payment_intent_def)
qed

subsection \<open>C6: failures of the processor\<close>

text \<open>
  C6. When the call to the processor raises a card error, either handler replies
  with 402, the status that \<^verbatim>\<open>_status_from_card_error\<close> gives for the error and the
  user message of the error unchanged. When the call raises any other exception,
  the reply is 500 with a fixed message in which nothing of the exception appears.
\<close>

theorem processor_failures:
  "(truthy api_key \<and> truthy (data ''payment_method_id'') \<and>
    parse_amount_to_cents (data ''amount'') = Inr cents \<and>
    stripe (PaymentIntent_create cents ''usd'' (data ''payment_method_id'')
              (py_or (data ''email'') None) True) = Inl (CardError exc) \<longrightarrow>
      snd (create_payment_intent api_key stripe data) =
        Response 402 [(''status'', JString (status_from_card_error exc)),
                      (''message'', json_of (user_message exc))]) \<and>
   (truthy api_key \<and> truthy (data ''payment_method_id'') \<and>
    parse_amount_to_cents (data ''amount'') = Inr cents \<and>
    stripe (PaymentIntent_create cents ''usd'' (data ''payment_method_id'')
              (py_or (data ''email'') None) True) = Inl (OtherException detail) \<longrightarrow>
      snd (create_payment_intent api_key stripe data) =
        Response 500 [(''status'', JString ''false''),
                      (''message'', JString ''Unable to create payment intent.'')]) \<and>
   (truthy (data ''payment_intent_id'') \<and>
    stripe (PaymentIntent_confirm (data ''payment_intent_id'')) = Inl (CardError exc) \<longrightarrow>
      snd (confirm_payment_intent api_key stripe data) =
        Response 402 [(''status'', JString (status_from_card_error exc)),
                      (''message'', json_of (user_message exc))]) \<and>
   (truthy (data ''payment_intent_id'') \<and>
    stripe (PaymentIntent_confirm (data ''payment_intent_id'')) = Inl (OtherException detail) \<longrightarrow>
      snd (confirm_payment_intent api_key stripe data) =
        Response 500 [(''status'', JString ''false''),
                      (''message'', JString ''Unable to confirm payment intent.'')])"
  by (simp add: create_payment_intent_def confirm_payment_intent_def Let_def)

text \<open>The theorem at the example request, with the declining and the failing processor.\<close>

theorem processor_failures_witness:
  "truthy (Some ''sk_test_1'') \<and> truthy (example_request ''payment_method_id'') \<and>
   truthy (example_request ''payment_intent_id'') \<and>
   parse_amount_to_cents (example_request ''amount'') = Inr 2500 \<and>
   declining_processor (PaymentIntent_create 2500 ''usd'' (example_request ''payment_method_id'')
      (py_or (example_request ''email'') None) True) = Inl (CardError example_card_error) \<and>
   declining_processor (PaymentIntent_confirm (example_request ''payment_intent_id'')) =
      Inl (CardError example_card_error) \<and>
   failing_processor (PaymentIntent_create 2500 ''usd'' (example_request ''payment_method_id'')
      (py_or (example_request ''email'') None) True) =
      Inl (OtherException ''Connection refused by api.stripe.com'') \<and>
   failing_processor (PaymentIntent_confirm (example_request ''payment_intent_id'')) =
      Inl (OtherException ''Connection refused by api.stripe.com'') \<and>
   snd (create_payment_intent (Some ''sk_test_1'') declining_processor example_request) =
     Response 402 [(''status'', JString ''live''),
                   (''message'', JString ''Your card has insufficient funds.'')] \<and>
   snd (confirm_payment_intent (Some ''sk_test_1'') declining_processor example_request) =
     Response 402 [(''status'', JString ''live''),
                   (''message'', JString ''Your card has insufficient funds.'')] \<and>
   snd (create_payment_intent (Some ''sk_test_1'') failing_processor example_request) =
     Response 500 [(''status'', JString ''false''),
                   (''message'', JString ''Unable to create payment intent.'')] \<and>
   snd (confirm_payment_intent (Some ''sk_test_1'') failing_processor example_request) =
     Response 500 [(''status'', JString ''false''),
                   (''message'', JString ''Unable to confirm payment intent.'')]"
proof -
  have p: "parse_amount_to_cents (example_request ''amount'') = Inr 2500"
    by (simp add: example_request_fields example_amount)
  have s: "status_from_card_error example_card_error = ''live''"
    by (simp add: status_from_card_error_def example_card_error_def py_or_def)
  have m: "json_of (user_message example_card_error) = JString ''Your card has insufficient funds.''"
    by (simp add: example_card_error_def)
  note d = processor_failures
             [of "Some ''sk_test_1''" example_request 2500 declining_processor example_card_error
                 "''Connection refused by api.stripe.com''"]
  note f = processor_failures
             [of "Some ''sk_test_1''" example_request 2500 failing_processor example_card_error
                 "''Connection refused by api.stripe.com''"]
  show ?thesis
    using d f p
    by (simp add: example_request_fields declining_processor_def failing_processor_def s m)
qed

subsection \<open>C7: a successful authorization\<close>

text \<open>
  C7. When the processor returns an intent whose status is not
  \<^verbatim>\<open>requires_action\<close>, either handler replies with the status \<^verbatim>\<open>true\<close>, the
  identifier and the client secret of the intent, and a message that ends with the
  formatted amount: \<^verbatim>\<open>create_payment_intent\<close> formats the cents that it parsed,
  \<^verbatim>\<open>confirm_payment_intent\<close> formats the amount that the intent reports.
\<close>

theorem successful_authorization:
  "(truthy api_key \<and> truthy (data ''payment_method_id'') \<and>
    parse_amount_to_cents (data ''amount'') = Inr cents \<and>
    stripe (PaymentIntent_create cents ''usd'' (data ''payment_method_id'')
              (py_or (data ''email'') None) True) = Inr intent \<and>
    status intent \<noteq> ''requires_action'' \<longrightarrow>
      snd (create_payment_intent api_key stripe data) =
        Response 200
          [(''status'', JString ''true''),
           (''message'', JString (''your donation sucessfull '' @ format_amount_from_cents cents)),
           (''payment_intent_id'', JString (intent_id intent)),
           (''client_secret'', JString (client_secret intent))]) \<and>
   (truthy (data ''payment_intent_id'') \<and>
    stripe (PaymentIntent_confirm (data ''payment_intent_id'')) = Inr intent \<and>
    status intent \<noteq> ''requires_action'' \<longrightarrow>
      snd (confirm_payment_intent api_key stripe data) =
        Response 200
          [(''status'', JString ''true''),
           (''message'',
              JString (''your donation sucessfull '' @ format_amount_from_cents (amount intent))),
           (''payment_intent_id'', JString (intent_id intent)),
           (''client_secret'', JString (client_secret intent))])"
  by (simp add: create_payment_intent_def confirm_payment_intent_def Let_def)

text \<open>
  The theorem at the example request, with a processor that reports an intent of 1999
  cents: the first message shows the 25.00 of the request, the second the 19.99 of
  the intent.
\<close>

theorem successful_authorization_witness:
  "truthy (Some ''sk_test_1'') \<and> truthy (example_request ''payment_method_id'') \<and>
   truthy (example_request ''payment_intent_id'') \<and>
   parse_amount_to_cents (example_request ''amount'') = Inr 2500 \<and>
   authorizing_processor (PaymentIntent_create 2500 ''usd'' (example_request ''payment_method_id'')
      (py_or (example_request ''email'') None) True) = Inr example_intent \<and>
   authorizing_processor (PaymentIntent_confirm (example_request ''payment_intent_id'')) =
      Inr example_intent \<and>
   status example_intent \<noteq> ''requires_action'' \<and>
   snd (create_payment_intent (Some ''sk_test_1'') authorizing_processor example_request) =
     Response 200
       [(''status'', JString ''true''),
        (''message'', JString ''your donation sucessfull 25.00''),
        (''payment_intent_id'', JString ''pi_1''),
        (''client_secret'', JString ''pi_1_secret'')] \<and>
   snd (confirm_payment_intent (Some ''sk_test_1'') authorizing_processor example_request) =
     Response 200
       [(''status'', JString ''true''),
        (''message'', JString ''your donation sucessfull 19.99''),
        (''payment_intent_id'', JString ''pi_1''),
        (''client_secret'', JString ''pi_1_secret'')]"
proof -
  have p: "parse_amount_to_cents (example_request ''amount'') = Inr 2500"
    by (simp add: example_request_fields example_amount)
  have f1: "format_amount_from_cents 2500 = ''25.00''" by code_simp
  have f2: "format_amount_from_cents 1999 = ''19.99''" by code_simp
  have st: "status example_intent \<noteq> ''requires_action''"
    by (simp add: example_intent_def)
  have i: "intent_id example_intent = ''pi_1''" "client_secret example_intent = ''pi_1_secret''"
          "amount example_intent = 1999"
    by (simp_all add: example_intent_def)
  note a = successful_authorization
             [of "Some ''sk_test_1''" example_request 2500 authorizing_processor example_intent]
  show ?thesis
    using a p st
    by (simp add: example_request_fields authorizing_processor_def f1 f2 i)
qed

subsection \<open>C8: formatting a parsed amount\<close>

text \<open>
  C8, as the code has it. For every string that \<^verbatim>\<open>Decimal\<close> reads as a finite number
  with a value \<open>v > 0\<close> that has at most two fractional digits and is below
  \<open>10 ^ 26\<close> (so that its cents are below \<open>10 ^ 28\<close>), the amount is accepted and
  \<^verbatim>\<open>_format_amount_from_cents\<close> of the cents is \<open>v\<close> rendered with exactly two
  fractional digits: the string of \<open>render_2dp\<close>, which \<^verbatim>\<open>Decimal\<close> reads back at
  the exponent \<open>-2\<close> with the value \<open>v\<close>. In particular 1234 cents are formatted
  as \<^verbatim>\<open>12.34\<close>.
\<close>

theorem format_parse_round_trip:
  "(\<forall>s sg c e.
      decimal_of_string s = Some (Finite sg c e) \<and>
      0 < decimal_value sg c e \<and>
      decimal_value sg c e * 100 \<in> \<int> \<and>
      decimal_value sg c e * 100 < 10 ^ 28 \<longrightarrow>
      (\<exists>cents. parse_amount_to_cents (Some s) = Inr cents \<and>
               format_amount_from_cents cents = render_2dp (decimal_value sg c e) \<and>
               decimal_of_string (format_amount_from_cents cents) =
                 Some (Finite False (nat cents) (- 2)) \<and>
               decimal_value False (nat cents) (- 2) = decimal_value sg c e)) \<and>
   format_amount_from_cents 1234 = ''12.34''"
proof (intro conjI allI impI)
  fix s sg c e
  assume a: "decimal_of_string s = Some (Finite sg c e) \<and>
      0 < decimal_value sg c e \<and>
      decimal_value sg c e * 100 \<in> \<int> \<and>
      decimal_value sg c e * 100 < 10 ^ 28"
  then have sg: "\<not> sg" using decimal_value_pos by blast
  define v where "v = decimal_value False c e"
  define m where "m = rescale c e (- 2)"
  from a sg obtain z where z: "v * 100 = of_int z"
    unfolding v_def by (auto elim: Ints_cases)
  have "int m = round_half_even (v * 100)"
    unfolding m_def v_def by (rule rescale_cents)
  then have mz: "int m = z" unfolding z round_half_even_of_int .
  have v100: "v * 100 = of_nat m" using z mz by simp
  then have v: "v = of_nat m / 100" by simp
  from a sg have "0 < v * 100" "v * 100 < 10 ^ 28" by (simp_all add: v_def)
  then have "(0 :: rat) < of_nat m" "(of_nat m :: rat) < of_nat (10 ^ 28)"
    unfolding v100 by simp_all
  then have m: "0 < m" "m < 10 ^ 28" unfolding of_nat_less_iff by simp_all
  have p: "parse_amount_to_cents (Some s) = Inr (int m)"
    using a sg m parse_amount_finite [of s sg c e] unfolding m_def [symmetric] by simp
  have f: "format_amount_from_cents (int m) = render_2dp v"
    using m by (simp add: format_amount_small v render_2dp_cents)
  have b: "decimal_of_string (format_amount_from_cents (int m)) = Some (Finite False (nat (int m)) (- 2))"
    using m by (intro decimal_of_format_amount) simp_all
  have dv: "decimal_value False (nat (int m)) (- 2) = v"
    by (simp add: decimal_value_def v)
  from p f b dv show "\<exists>cents. parse_amount_to_cents (Some s) = Inr cents \<and>
               format_amount_from_cents cents = render_2dp (decimal_value sg c e) \<and>
               decimal_of_string (format_amount_from_cents cents) =
                 Some (Finite False (nat cents) (- 2)) \<and>
               decimal_value False (nat cents) (- 2) = decimal_value sg c e"
    using sg unfolding v_def by (intro exI [of _ "int m"]) simp
next
  show "format_amount_from_cents 1234 = ''12.34''" by code_simp
qed

text \<open>The theorem at \<^verbatim>\<open>"12.5"\<close>, which comes back as \<^verbatim>\<open>12.50\<close>.\<close>

theorem format_parse_round_trip_witness:
  "decimal_of_string ''12.5'' = Some (Finite False 125 (- 1)) \<and>
   0 < decimal_value False 125 (- 1) \<and>
   decimal_value False 125 (- 1) * 100 \<in> \<int> \<and>
   decimal_value False 125 (- 1) * 100 < 10 ^ 28 \<and>
   parse_amount_to_cents (Some ''12.5'') = Inr 1250 \<and>
   format_amount_from_cents 1250 = ''12.50'' \<and>
   render_2dp (decimal_value False 125 (- 1)) = ''12.50'' \<and>
   decimal_of_string ''12.50'' = Some (Finite False 1250 (- 2))"
proof -
  have d: "decimal_of_string ''12.5'' = Some (Finite False 125 (- 1))" by code_simp
  have v: "decimal_value False 125 (- 1) * 100 = 1250" by (simp add: decimal_value_def)
  have h: "0 < decimal_value False 125 (- 1)" by (simp add: decimal_value_def)
  have i: "decimal_value False 125 (- 1) * 100 \<in> \<int>" unfolding v by simp
  have l: "decimal_value False 125 (- 1) * 100 < 10 ^ 28" unfolding v by simp
  have p: "parse_amount_to_cents (Some ''12.5'') = Inr 1250" by code_simp
  have r: "render_2dp (decimal_value False 125 (- 1)) = ''12.50''" by code_simp
  have g: "\<forall>s sg c e.
      decimal_of_string s = Some (Finite sg c e) \<and>
      0 < decimal_value sg c e \<and>
      decimal_value sg c e * 100 \<in> \<int> \<and>
      decimal_value sg c e * 100 < 10 ^ 28 \<longrightarrow>
      (\<exists>cents. parse_amount_to_cents (Some s) = Inr cents \<and>
               format_amount_from_cents cents = render_2dp (decimal_value sg c e) \<and>
               decimal_of_string (format_amount_from_cents cents) =
                 Some (Finite False (nat cents) (- 2)) \<and>
               decimal_value False (nat cents) (- 2) = decimal_value sg c e)"
    using format_parse_round_trip by (rule conjunct1)
  from g [rule_format, of "''12.5''" False 125 "- 1"] d h i l
  obtain cents where c: "parse_amount_to_cents (Some ''12.5'') = Inr cents"
    and f: "format_amount_from_cents cents = render_2dp (decimal_value False 125 (- 1))"
    and b: "decimal_of_string (format_amount_from_cents cents) = Some (Finite False (nat cents) (- 2))"
    by blast
  from c have cents: "cents = 1250" unfolding p by simp
  have f': "format_amount_from_cents 1250 = ''12.50''" using f unfolding cents r .
  have b': "decimal_of_string ''12.50'' = Some (Finite False 1250 (- 2))"
    using b unfolding cents f' by simp
  show ?thesis using d h i l p r f' b' by simp
qed

text \<open>
  Without the bound the statement fails: the 27 digits of \<open>10 ^ 26\<close> are a positive
  value without fractional digits, and the amount is rejected, so that there are no
  cents to format.
\<close>

theorem format_parse_round_trip_large_counterexample:
  "decimal_of_string ''100000000000000000000000000'' =
     Some (Finite False 100000000000000000000000000 0) \<and>
   0 < decimal_value False 100000000000000000000000000 0 \<and>
   decimal_value False 100000000000000000000000000 0 * 100 \<in> \<int> \<and>
   parse_amount_to_cents (Some ''100000000000000000000000000'') =
     Inl (ValueError ''Invalid amount.'')"
proof -
  have d: "decimal_of_string ''100000000000000000000000000'' =
     Some (Finite False 100000000000000000000000000 0)" by code_simp
  have p: "parse_amount_to_cents (Some ''100000000000000000000000000'') =
     Inl (ValueError ''Invalid amount.'')" by code_simp
  show ?thesis unfolding d p by (simp add: decimal_value_def)
qed

subsection \<open>C9: \<^verbatim>\<open>confirm_payment_intent\<close> does not look at the key\<close>

text \<open>
  C9. With an intent identifier in the request, \<^verbatim>\<open>confirm_payment_intent\<close> calls the
  confirm operation of the processor whether or not a secret key is configured, and
  its reply is never the 500 configuration error; its result does not depend on the
  key at all. \<^verbatim>\<open>create_payment_intent\<close> without a key calls nothing.
\<close>

theorem confirm_payment_intent_ignores_key:
  "(truthy (data ''payment_intent_id'') \<longrightarrow>
      fst (confirm_payment_intent api_key stripe data) =
        [PaymentIntent_confirm (data ''payment_intent_id'')] \<and>
      snd (confirm_payment_intent api_key stripe data) \<noteq>
        Response 500 [(''error'', JString ''Stripe secret key not set.'')]) \<and>
   confirm_payment_intent api_key stripe data = confirm_payment_intent None stripe data \<and>
   (\<not> truthy api_key \<longrightarrow> fst (create_payment_intent api_key stripe data) = [])"
  by (auto simp add: create_payment_intent_def confirm_payment_intent_def Let_def
           split: sum.splits stripe_exception.splits)

text \<open>The theorem at the example request, without a key.\<close>

theorem confirm_payment_intent_ignores_key_witness:
  "truthy (example_request ''payment_intent_id'') \<and> \<not> truthy None \<and>
   fst (confirm_payment_intent None failing_processor example_request) =
     [PaymentIntent_confirm (Some ''pi_1'')] \<and>
   snd (confirm_payment_intent None failing_processor example_request) \<noteq>
     Response 500 [(''error'', JString ''Stripe secret key not set.'')] \<and>
   fst (create_payment_intent None failing_processor example_request) = []"
  using confirm_payment_intent_ignores_key [of example_request None failing_processor]
  by (simp add: example_request_fields)

subsection \<open>C10: ties go to the even cent\<close>



end
